theory Spec2Isabelle
  imports Complex_Main
begin

section \<open>AI Doc: the symptom-submission pipeline, its history cache and the disclaimer gate\<close>

text \<open>
  A shallow embedding of \<^verbatim>\<open>src/services/gemini.ts\<close> (\<^verbatim>\<open>getDiagnosis\<close>), of the
  \<^verbatim>\<open>App\<close> component (its state, its mount effect, \<^verbatim>\<open>handleAcceptDisclaimer\<close>,
  \<^verbatim>\<open>handleDiagnosis\<close>, \<^verbatim>\<open>clearHistory\<close>, the buttons) and of \<^verbatim>\<open>types.ts\<close>.

  What belongs to the JavaScript runtime and not to the repository is a parameter of the
  model: \<^verbatim>\<open>JSON.parse\<close> (a function to \<open>option\<close>, \<open>None\<close> standing for the
  \<^verbatim>\<open>SyntaxError\<close> it throws), \<^verbatim>\<open>JSON.stringify\<close>, the settled outcome of the awaited
  \<^verbatim>\<open>generateContent\<close> call, \<^verbatim>\<open>crypto.randomUUID()\<close> and \<^verbatim>\<open>Date.now()\<close>.
  \<^verbatim>\<open>console.error\<close> writes to the developer console only and is left out of the state.
\<close>

subsection \<open>Values\<close>

text \<open>
  The values \<^verbatim>\<open>JSON.parse\<close> can return. An object is its list of members; a number is
  the real it denotes.
\<close>

datatype json =
    JNull
  | JBool bool
  | JNumber real
  | JString string
  | JArray "json list"
  | JObject "(string \<times> json) list"

text \<open>
  \<^verbatim>\<open>interface DiagnosisResult\<close> exists at compile time only: the cast
  \<^verbatim>\<open>JSON.parse(...) as DiagnosisResult\<close> checks nothing at run time, so a value of that type
  is whatever JSON value was parsed.
\<close>

type_synonym DiagnosisResult = json

text \<open>Property lookup \<^verbatim>\<open>v[name]\<close>: \<open>None\<close> is \<^verbatim>\<open>undefined\<close>.\<close>

fun member_of :: "json \<Rightarrow> string \<Rightarrow> json option" where
  "member_of (JObject ms) name = map_of ms name"
| "member_of _ name = None"

text \<open>The \<^verbatim>\<open>required\<close> list of the response schema sent by \<^verbatim>\<open>getDiagnosis\<close>.\<close>

definition required :: "string list" where
  "required = [''potentialConditions'', ''severity'', ''recommendation'', ''nextSteps'', ''disclaimer'']"

text \<open>
  \<^verbatim>\<open>interface SymptomEntry\<close>. The fields carry the prefix \<open>entry_\<close>: \<open>id\<close> is a HOL
  constant, and \<open>symptoms\<close> and \<open>result\<close> are fields of the component state below.
\<close>

record SymptomEntry =
  entry_id :: string
  entry_timestamp :: real
  entry_symptoms :: string
  entry_result :: DiagnosisResult

datatype js_error =
    SyntaxError
  | ApiError string
  | Error string

text \<open>
  A JSON value read at the type \<^verbatim>\<open>SymptomEntry[]\<close>: an array of objects, each with
  a string \<^verbatim>\<open>id\<close>, a number \<^verbatim>\<open>timestamp\<close>, a string \<^verbatim>\<open>symptoms\<close> and an
  object \<^verbatim>\<open>result\<close>, whose own fields are left unchecked as \<^verbatim>\<open>getDiagnosis\<close>
  leaves them. \<open>None\<close> when the value is not of that shape.
\<close>

definition as_entry :: "json \<Rightarrow> SymptomEntry option" where
  "as_entry v =
     (case (member_of v ''id'', member_of v ''timestamp'', member_of v ''symptoms'',
            member_of v ''result'') of
        (Some (JString i), Some (JNumber t), Some (JString s), Some (JObject ms)) \<Rightarrow>
          Some \<lparr>entry_id = i, entry_timestamp = t, entry_symptoms = s,
                entry_result = JObject ms\<rparr>
      | _ \<Rightarrow> None)"

fun as_entries :: "json \<Rightarrow> SymptomEntry list option" where
  "as_entries (JArray vs) = those (map as_entry vs)"
| "as_entries _ = None"

subsection \<open>Strings\<close>

text \<open>
  A \<open>char\<close> is read as one code unit below 256. These are the code units of that range
  that \<^verbatim>\<open>String.prototype.trim\<close> strips (white space and line terminators): TAB, LF, VT,
  FF, CR, SP and NBSP.
\<close>

definition isWhiteSpace :: "char \<Rightarrow> bool" where
  "isWhiteSpace c \<longleftrightarrow>
     c \<in> set [CHR 0x09, CHR 0x0A, CHR 0x0B, CHR 0x0C, CHR 0x0D, CHR 0x20, CHR 0xA0]"

definition trim :: "string \<Rightarrow> string" where
  "trim s = rev (dropWhile isWhiteSpace (rev (dropWhile isWhiteSpace s)))"

text \<open>
  \<^verbatim>\<open>a || b\<close> on a possibly undefined string: \<^verbatim>\<open>undefined\<close> and the empty string are
  falsy.
\<close>

definition or_else :: "string option \<Rightarrow> string \<Rightarrow> string" where
  "or_else a b = (case a of None \<Rightarrow> b | Some s \<Rightarrow> if s = [] then b else s)"

subsection \<open>The Diagnosis Client: \<^verbatim>\<open>getDiagnosis\<close>\<close>

text \<open>
  \<^verbatim>\<open>await ai.models.generateContent({...})\<close> issues one request; the symptoms are the
  only part of it that varies, so the log of requests sent records them. The request is
  outside the \<^verbatim>\<open>try\<close> block: a rejection leaves \<^verbatim>\<open>getDiagnosis\<close> as it is.
\<close>

definition getDiagnosis_send :: "string \<Rightarrow> string list \<Rightarrow> string list" where
  "getDiagnosis_send symptoms sent = sent @ [symptoms]"

text \<open>
  The rest of the function, from the settled outcome of the request: \<open>Inl e\<close> when the
  promise was rejected with \<open>e\<close>, \<open>Inr t\<close> when it resolved to a response whose
  \<^verbatim>\<open>.text\<close> is \<open>t\<close>.
  \<^verbatim>\<open>
  try {
    return JSON.parse(response.text || "{}") as DiagnosisResult;
  } catch (error) {
    console.error("Failed to parse diagnosis result:", error);
    throw new Error("Failed to analyze symptoms. Please try again.");
  }
  \<close>
\<close>

definition getDiagnosis_receive ::
  "(string \<Rightarrow> json option) \<Rightarrow> js_error + string option \<Rightarrow> js_error + DiagnosisResult" where
  "getDiagnosis_receive JSON_parse response =
     (case response of
        Inl e \<Rightarrow> Inl e
      | Inr t \<Rightarrow>
          (case JSON_parse (or_else t ''{}'') of
             Some v \<Rightarrow> Inr v
           | None \<Rightarrow> Inl (Error ''Failed to analyze symptoms. Please try again.'')))"

text \<open>
  The whole call, with the external service as a function \<open>ai\<close> from the symptoms of a
  request to its outcome: the result, and the log of requests sent.
\<close>

definition getDiagnosis ::
  "(string \<Rightarrow> json option) \<Rightarrow> (string \<Rightarrow> js_error + string option) \<Rightarrow> string \<Rightarrow> string list
     \<Rightarrow> (js_error + DiagnosisResult) \<times> string list" where
  "getDiagnosis JSON_parse ai symptoms sent =
     (getDiagnosis_receive JSON_parse (ai symptoms), getDiagnosis_send symptoms sent)"

subsection \<open>The component state\<close>

text \<open>The six \<^verbatim>\<open>useState\<close> cells of \<^verbatim>\<open>App\<close>; \<open>None\<close> is \<^verbatim>\<open>null\<close>.\<close>

record app_state =
  symptoms :: string
  isLoading :: bool
  result :: "DiagnosisResult option"
  history :: "SymptomEntry list"
  showDisclaimer :: bool
  hasAcceptedDisclaimer :: bool

text \<open>
  The component with what it acts on: \<^verbatim>\<open>localStorage\<close>, the \<^verbatim>\<open>alert\<close> boxes shown and
  the requests sent to the external service.
\<close>

record world =
  ui :: app_state
  localStorage :: "string \<rightharpoonup> string"
  alerts :: "string list"
  sent :: "string list"

definition initial_state :: app_state where
  "initial_state =
     \<lparr>symptoms = [], isLoading = False, result = None, history = [],
      showDisclaimer = True, hasAcceptedDisclaimer = False\<rparr>"

text \<open>A fresh session (a page load) over what the device has stored.\<close>

definition fresh_session :: "(string \<rightharpoonup> string) \<Rightarrow> world" where
  "fresh_session store = \<lparr>ui = initial_state, localStorage = store, alerts = [], sent = []\<rparr>"

text \<open>\<^verbatim>\<open>onChange={(e) => setSymptoms(e.target.value)}\<close>\<close>

definition setSymptoms :: "string \<Rightarrow> world \<Rightarrow> world" where
  "setSymptoms v w = w\<lparr>ui := (ui w)\<lparr>symptoms := v\<rparr>\<rparr>"

subsection \<open>The mount effect\<close>

text \<open>
  \<^verbatim>\<open>
  useEffect(() => {
    const savedHistory = localStorage.getItem('aidoc_history');
    if (savedHistory) {
      setHistory(JSON.parse(savedHistory));
    }
    const accepted = localStorage.getItem('aidoc_disclaimer_accepted');
    if (accepted === 'true') {
      setHasAcceptedDisclaimer(true);
      setShowDisclaimer(false);
    }
  }, []);
  \<close>
There is no \<^verbatim>\<open>try\<close> around \<^verbatim>\<open>JSON.parse\<close>: its exception leaves the effect, and the
  lines after it do not run. Whatever value \<^verbatim>\<open>JSON.parse\<close> returns goes into the
  \<^verbatim>\<open>history\<close> cell, and the effect goes on. The cell of the model holds entry lists
  only, so the effect has three outcomes: it raises; it ends with a state of the model;
  or it ends with a value in the \<^verbatim>\<open>history\<close> cell that is not a
  \<^verbatim>\<open>SymptomEntry[]\<close> (the value is kept beside the other cells; what \<^verbatim>\<open>App\<close> does
  with such a cell is outside the model).
\<close>

datatype mount_result =
    Raised js_error
  | Mounted world
  | Mounted_untyped json world

definition load_history :: "(string \<Rightarrow> json option) \<Rightarrow> world \<Rightarrow> mount_result" where
  "load_history JSON_parse w =
     (case localStorage w ''aidoc_history'' of
        None \<Rightarrow> Mounted w
      | Some savedHistory \<Rightarrow>
          if savedHistory = [] then Mounted w
          else (case JSON_parse savedHistory of
                  None \<Rightarrow> Raised SyntaxError
                | Some v \<Rightarrow>
                    (case as_entries v of
                       Some h \<Rightarrow> Mounted (w\<lparr>ui := (ui w)\<lparr>history := h\<rparr>\<rparr>)
                     | None \<Rightarrow> Mounted_untyped v w)))"

definition load_disclaimer :: "world \<Rightarrow> world" where
  "load_disclaimer w =
     (if localStorage w ''aidoc_disclaimer_accepted'' = Some ''true''
      then w\<lparr>ui := (ui w)\<lparr>hasAcceptedDisclaimer := True, showDisclaimer := False\<rparr>\<rparr>
      else w)"

definition load :: "(string \<Rightarrow> json option) \<Rightarrow> world \<Rightarrow> mount_result" where
  "load JSON_parse w =
     (case load_history JSON_parse w of
        Raised e \<Rightarrow> Raised e
      | Mounted w' \<Rightarrow> Mounted (load_disclaimer w')
      | Mounted_untyped v w' \<Rightarrow> Mounted_untyped v (load_disclaimer w'))"

subsection \<open>The disclaimer gate\<close>

text \<open>
  \<^verbatim>\<open>
  const handleAcceptDisclaimer = () => {
    setHasAcceptedDisclaimer(true);
    setShowDisclaimer(false);
    localStorage.setItem('aidoc_disclaimer_accepted', 'true');
  };
  \<close>
\<close>

definition handleAcceptDisclaimer :: "world \<Rightarrow> world" where
  "handleAcceptDisclaimer w =
     w\<lparr>ui := (ui w)\<lparr>hasAcceptedDisclaimer := True, showDisclaimer := False\<rparr>,
       localStorage := (localStorage w)(''aidoc_disclaimer_accepted'' \<mapsto> ''true'')\<rparr>"

subsection \<open>The Session Controller: \<^verbatim>\<open>handleDiagnosis\<close>\<close>

text \<open>
  \<^verbatim>\<open>handleDiagnosis\<close> is asynchronous. It runs to its \<^verbatim>\<open>await\<close>, is suspended, and is
  resumed when the request settles. What the suspended call keeps of the render that
  created it is its closure: \<^verbatim>\<open>symptoms\<close> and \<^verbatim>\<open>history\<close>.
\<close>

record pending =
  p_symptoms :: string
  p_history :: "SymptomEntry list"

text \<open>
  Up to the \<^verbatim>\<open>await\<close>:
  \<^verbatim>\<open>
  if (!symptoms.trim()) return;
  setIsLoading(true);
  try {
    const data = await getDiagnosis(symptoms);
  \<close>
  The only guard is the one on the text; \<^verbatim>\<open>isLoading\<close> is not read.
\<close>

definition handleDiagnosis_begin :: "world \<Rightarrow> world \<times> pending option" where
  "handleDiagnosis_begin w =
     (if trim (symptoms (ui w)) = [] then (w, None)
      else
        (w\<lparr>ui := (ui w)\<lparr>isLoading := True\<rparr>,
           sent := getDiagnosis_send (symptoms (ui w)) (sent w)\<rparr>,
         Some \<lparr>p_symptoms = symptoms (ui w), p_history = history (ui w)\<rparr>))"

text \<open>
  \<^verbatim>\<open>
  const newEntry: SymptomEntry = {
    id: crypto.randomUUID(), timestamp: Date.now(), symptoms, result: data
  };
  \<close>
\<close>

definition newEntry :: "string \<Rightarrow> real \<Rightarrow> string \<Rightarrow> DiagnosisResult \<Rightarrow> SymptomEntry" where
  "newEntry uuid now s data =
     \<lparr>entry_id = uuid, entry_timestamp = now, entry_symptoms = s, entry_result = data\<rparr>"

text \<open>
  From the \<^verbatim>\<open>await\<close> on, given the outcome of the request:
  \<^verbatim>\<open>
      setResult(data);
      const newEntry = ...;
      const updatedHistory = [newEntry, ...history].slice(0, 10);
      setHistory(updatedHistory);
      localStorage.setItem('aidoc_history', JSON.stringify(updatedHistory));
    } catch (error) {
      console.error(error);
      alert('An error occurred during analysis. Please try again.');
    } finally {
      setIsLoading(false);
    }
  \<close>
\<close>

definition handleDiagnosis_resume ::
  "(string \<Rightarrow> json option) \<Rightarrow> (SymptomEntry list \<Rightarrow> string) \<Rightarrow> pending
     \<Rightarrow> js_error + string option \<Rightarrow> string \<Rightarrow> real \<Rightarrow> world \<Rightarrow> world" where
  "handleDiagnosis_resume JSON_parse JSON_stringify p response uuid now w =
     (let w' =
        (case getDiagnosis_receive JSON_parse response of
           Inr data \<Rightarrow>
             (let updatedHistory = take 10 (newEntry uuid now (p_symptoms p) data # p_history p)
              in w\<lparr>ui := (ui w)\<lparr>result := Some data, history := updatedHistory\<rparr>,
                    localStorage :=
                      (localStorage w)(''aidoc_history'' \<mapsto> JSON_stringify updatedHistory)\<rparr>)
         | Inl e \<Rightarrow>
             w\<lparr>alerts := alerts w @ [''An error occurred during analysis. Please try again.'']\<rparr>)
      in w'\<lparr>ui := (ui w')\<lparr>isLoading := False\<rparr>\<rparr>)"

text \<open>One call of \<^verbatim>\<open>handleDiagnosis\<close> from its start to its end, nothing in between.\<close>

definition handleDiagnosis ::
  "(string \<Rightarrow> json option) \<Rightarrow> (SymptomEntry list \<Rightarrow> string)
     \<Rightarrow> js_error + string option \<Rightarrow> string \<Rightarrow> real \<Rightarrow> world \<Rightarrow> world" where
  "handleDiagnosis JSON_parse JSON_stringify response uuid now w =
     (case handleDiagnosis_begin w of
        (w', None) \<Rightarrow> w'
      | (w', Some p) \<Rightarrow> handleDiagnosis_resume JSON_parse JSON_stringify p response uuid now w')"

subsection \<open>The submit button\<close>

text \<open>
  \<^verbatim>\<open><button type="submit" disabled={isLoading || !symptoms.trim()}>\<close>: the form's only
  submit control. A disabled button submits nothing, so \<^verbatim>\<open>onSubmit\<close> is not called.
\<close>

definition submit_disabled :: "app_state \<Rightarrow> bool" where
  "submit_disabled s \<longleftrightarrow> isLoading s \<or> trim (symptoms s) = []"

definition click_submit :: "world \<Rightarrow> world \<times> pending option" where
  "click_submit w = (if submit_disabled (ui w) then (w, None) else handleDiagnosis_begin w)"

subsection \<open>The other handlers\<close>

text \<open>
  \<^verbatim>\<open>
  const clearHistory = () => {
    setHistory([]);
    localStorage.removeItem('aidoc_history');
  };
  \<close>
\<close>

definition clearHistory :: "world \<Rightarrow> world" where
  "clearHistory w =
     w\<lparr>ui := (ui w)\<lparr>history := []\<rparr>,
       localStorage := (localStorage w)(''aidoc_history'' := None)\<rparr>"

text \<open>The button of a history item: \<^verbatim>\<open>onClick={() => setResult(item.result)}\<close>\<close>

definition selectFromHistory :: "SymptomEntry \<Rightarrow> world \<Rightarrow> world" where
  "selectFromHistory item w = w\<lparr>ui := (ui w)\<lparr>result := Some (entry_result item)\<rparr>\<rparr>"

text \<open>The Disclaimer button of the header: \<^verbatim>\<open>onClick={() => setShowDisclaimer(true)}\<close>\<close>

definition reopenDisclaimer :: "world \<Rightarrow> world" where
  "reopenDisclaimer w = w\<lparr>ui := (ui w)\<lparr>showDisclaimer := True\<rparr>\<rparr>"

text \<open>
  The backdrop of the modal,
  \<^verbatim>\<open>onClick={() => hasAcceptedDisclaimer && setShowDisclaimer(false)}\<close>, and its Close
  button, which is rendered only when \<^verbatim>\<open>hasAcceptedDisclaimer\<close> holds.
\<close>

definition closeDisclaimer :: "world \<Rightarrow> world" where
  "closeDisclaimer w =
     (if hasAcceptedDisclaimer (ui w) then w\<lparr>ui := (ui w)\<lparr>showDisclaimer := False\<rparr>\<rparr> else w)"

subsection \<open>Sessions\<close>

text \<open>
  What can happen to the mounted component: the user edits the textarea, clicks the
  submit button, clicks Clear (rendered when the history is not empty), clicks the
  \<open>i\<close>-th history item, clicks Accept or closes the modal (both rendered when
  \<^verbatim>\<open>showDisclaimer\<close> holds), reopens the disclaimer; or a pending request settles, with
  its outcome, the UUID and the clock its handler will read.
\<close>

datatype event =
    Edit string
  | Click_submit
  | Click_clear
  | Click_item nat
  | Click_accept
  | Click_close
  | Click_disclaimer
  | Settle "js_error + string option" string real

text \<open>
  A session is the state together with the calls of \<^verbatim>\<open>handleDiagnosis\<close> that are
  suspended at their \<^verbatim>\<open>await\<close>, oldest first. \<^verbatim>\<open>handleDiagnosis\<close> is the form's
  \<^verbatim>\<open>onSubmit\<close> and nothing else calls it, so a call starts with a click on the submit
  button.
\<close>

fun step ::
  "(string \<Rightarrow> json option) \<Rightarrow> (SymptomEntry list \<Rightarrow> string) \<Rightarrow> event
     \<Rightarrow> world \<times> pending list \<Rightarrow> world \<times> pending list" where
  "step JSON_parse JSON_stringify (Edit v) (w, ps) = (setSymptoms v w, ps)"
| "step JSON_parse JSON_stringify Click_submit (w, ps) =
     (case click_submit w of
        (w', None) \<Rightarrow> (w', ps)
      | (w', Some p) \<Rightarrow> (w', ps @ [p]))"
| "step JSON_parse JSON_stringify Click_clear (w, ps) =
     (if history (ui w) \<noteq> [] then (clearHistory w, ps) else (w, ps))"
| "step JSON_parse JSON_stringify (Click_item i) (w, ps) =
     (if i < length (history (ui w)) then (selectFromHistory (history (ui w) ! i) w, ps)
      else (w, ps))"
| "step JSON_parse JSON_stringify Click_accept (w, ps) =
     (if showDisclaimer (ui w) then (handleAcceptDisclaimer w, ps) else (w, ps))"
| "step JSON_parse JSON_stringify Click_close (w, ps) =
     (if showDisclaimer (ui w) then (closeDisclaimer w, ps) else (w, ps))"
| "step JSON_parse JSON_stringify Click_disclaimer (w, ps) = (reopenDisclaimer w, ps)"
| "step JSON_parse JSON_stringify (Settle response uuid now) (w, ps) =
     (case ps of
        [] \<Rightarrow> (w, ps)
      | p # ps' \<Rightarrow> (handleDiagnosis_resume JSON_parse JSON_stringify p response uuid now w, ps'))"

definition run_events ::
  "(string \<Rightarrow> json option) \<Rightarrow> (SymptomEntry list \<Rightarrow> string) \<Rightarrow> event list
     \<Rightarrow> world \<times> pending list \<Rightarrow> world \<times> pending list" where
  "run_events JSON_parse JSON_stringify evs s = fold (step JSON_parse JSON_stringify) evs s"

text \<open>
  The state and the suspended calls agree: the component is Loading exactly when a call
  is suspended, and no more than one is.
\<close>

definition one_in_flight :: "world \<times> pending list \<Rightarrow> bool" where
  "one_in_flight s \<longleftrightarrow>
     length (snd s) \<le> 1 \<and> (isLoading (ui (fst s)) \<longleftrightarrow> snd s \<noteq> [])"

subsection \<open>Runs of submissions\<close>

text \<open>
  One use of the form: the text typed into the textarea, and what the environment gives
  the call of \<^verbatim>\<open>handleDiagnosis\<close> it triggers (the outcome of the request, the UUID, the
  clock). Each submission ends before the next one starts, and each one runs in the
  render that follows the previous one, so it reads the state the previous one wrote.
\<close>

record submission =
  s_typed :: string
  s_response :: "js_error + string option"
  s_uuid :: string
  s_now :: real

definition submit_one ::
  "(string \<Rightarrow> json option) \<Rightarrow> (SymptomEntry list \<Rightarrow> string) \<Rightarrow> submission \<Rightarrow> world \<Rightarrow> world" where
  "submit_one JSON_parse JSON_stringify sub w =
     handleDiagnosis JSON_parse JSON_stringify (s_response sub) (s_uuid sub) (s_now sub)
       (setSymptoms (s_typed sub) w)"

definition submit_all ::
  "(string \<Rightarrow> json option) \<Rightarrow> (SymptomEntry list \<Rightarrow> string) \<Rightarrow> submission list \<Rightarrow> world
     \<Rightarrow> world" where
  "submit_all JSON_parse JSON_stringify subs w =
     fold (submit_one JSON_parse JSON_stringify) subs w"

text \<open>A submission succeeds when its text is accepted and the client returns a result.\<close>

definition succeeds :: "(string \<Rightarrow> json option) \<Rightarrow> submission \<Rightarrow> bool" where
  "succeeds JSON_parse sub \<longleftrightarrow>
     trim (s_typed sub) \<noteq> [] \<and>
     (case getDiagnosis_receive JSON_parse (s_response sub) of
        Inr data \<Rightarrow> True
      | Inl e \<Rightarrow> False)"

text \<open>The entry a successful submission builds.\<close>

definition entry_of :: "(string \<Rightarrow> json option) \<Rightarrow> submission \<Rightarrow> SymptomEntry" where
  "entry_of JSON_parse sub =
     newEntry (s_uuid sub) (s_now sub) (s_typed sub)
       (projr (getDiagnosis_receive JSON_parse (s_response sub)))"


subsection \<open>Concrete inputs\<close>

text \<open>
  The theorems below hold for every \<^verbatim>\<open>JSON.parse\<close> and \<^verbatim>\<open>JSON.stringify\<close>. To run the
  model on concrete inputs, these stand in for them. \<open>sample_parse\<close> agrees with
  \<^verbatim>\<open>JSON.parse\<close> on the texts the examples use: \<open>sample_result_text\<close> (a response with
  every required field), \<^verbatim>\<open>{}\<close>, \<^verbatim>\<open>[]\<close> and \<^verbatim>\<open>null\<close> parse; the empty text and
  the truncated texts \<^verbatim>\<open>{\<close> and \<^verbatim>\<open>[{\<close> are syntax errors. \<open>sample_stringify\<close> is
  a serialiser whose output the model stores and never reads.
\<close>

definition quoted :: "string \<Rightarrow> string" where
  "quoted s = CHR 0x22 # s @ [CHR 0x22]"

definition sample_result_text :: string where
  "sample_result_text =
     ''{'' @ quoted ''potentialConditions'' @ '':[],'' @
     quoted ''severity'' @ '':'' @ quoted ''Low'' @ '','' @
     quoted ''recommendation'' @ '':'' @ quoted ''Rest'' @ '','' @
     quoted ''nextSteps'' @ '':[],'' @
     quoted ''disclaimer'' @ '':'' @ quoted ''Not medical advice'' @ ''}''"

definition sample_result :: DiagnosisResult where
  "sample_result =
     JObject [(''potentialConditions'', JArray []), (''severity'', JString ''Low''),
       (''recommendation'', JString ''Rest''), (''nextSteps'', JArray []),
       (''disclaimer'', JString ''Not medical advice'')]"

definition sample_parse :: "string \<Rightarrow> json option" where
  "sample_parse t =
     (if t = sample_result_text then Some sample_result
      else if t = ''{}'' then Some (JObject [])
      else if t = ''[]'' then Some (JArray [])
      else if t = ''null'' then Some JNull
      else None)"

definition sample_stringify :: "SymptomEntry list \<Rightarrow> string" where
  "sample_stringify h = ''['' @ concat (map (\<lambda>e. entry_id e @ '';'') h) @ '']''"

text \<open>A first session in which the user has typed a text with blanks at both ends.\<close>

definition sample_world :: world where
  "sample_world = setSymptoms '' dry cough '' (fresh_session Map.empty)"

text \<open>The \<open>n\<close>-th of a run of submissions, each answered with \<open>sample_result_text\<close>.\<close>

definition sample_submission :: "nat \<Rightarrow> submission" where
  "sample_submission n =
     \<lparr>s_typed = '' dry cough '', s_response = Inr (Some sample_result_text),
      s_uuid = replicate (Suc n) (CHR ''u''), s_now = real n\<rparr>"

section \<open>Properties\<close>

subsection \<open>Auxiliary facts\<close>

lemma dropWhile_all_iff:
  "(\<forall>x \<in> set (dropWhile P xs). P x) \<longleftrightarrow> (\<forall>x \<in> set xs. P x)"
  by (induction xs) auto

lemma trim_empty_iff: "trim s = [] \<longleftrightarrow> (\<forall>c \<in> set s. isWhiteSpace c)"
  by (simp add: trim_def dropWhile_eq_Nil_conv dropWhile_all_iff)

lemma take_cons_take: "take n (x # take n xs) = take n (x # xs)"
  by (cases n) simp_all

lemma sample_world_accepted: "trim (symptoms (ui sample_world)) \<noteq> []"
  by (simp add: sample_world_def setSymptoms_def trim_def isWhiteSpace_def)

lemma submit_one_success:
  assumes "succeeds JSON_parse sub"
  shows "history (ui (submit_one JSON_parse JSON_stringify sub w)) =
           take 10 (entry_of JSON_parse sub # history (ui w))"
    and "localStorage (submit_one JSON_parse JSON_stringify sub w) ''aidoc_history'' =
           Some (JSON_stringify (take 10 (entry_of JSON_parse sub # history (ui w))))"
  using assms
  by (auto simp: succeeds_def submit_one_def handleDiagnosis_def handleDiagnosis_begin_def
      handleDiagnosis_resume_def setSymptoms_def entry_of_def Let_def split: sum.splits)

lemma submit_all_snoc:
  "submit_all P S (subs @ [s]) w = submit_one P S s (submit_all P S subs w)"
  by (simp add: submit_all_def)

text \<open>
  The history after a run: the new entries, newest first, in front of the old ones, cut
  at ten. With no submission at all the history is the one the run started with, which
  is why the start must be within the cap then.
\<close>

lemma submit_all_history:
  assumes "\<forall>sub \<in> set subs. succeeds JSON_parse sub"
    and "subs \<noteq> [] \<or> length (history (ui w)) \<le> 10"
  shows "history (ui (submit_all JSON_parse JSON_stringify subs w)) =
           take 10 (rev (map (entry_of JSON_parse) subs) @ history (ui w))"
  using assms
proof (induction subs rule: rev_induct)
  case Nil
  then show ?case by (simp add: submit_all_def)
next
  case (snoc s subs)
  show ?case
  proof (cases "subs = []")
    case True
    with snoc.prems show ?thesis
      by (simp add: submit_all_def submit_one_success)
  next
    case False
    with snoc have IH: "history (ui (submit_all JSON_parse JSON_stringify subs w)) =
           take 10 (rev (map (entry_of JSON_parse) subs) @ history (ui w))" by simp
    from snoc.prems have "succeeds JSON_parse s" by simp
    then have "history (ui (submit_all JSON_parse JSON_stringify (subs @ [s]) w)) =
        take 10 (entry_of JSON_parse s #
          history (ui (submit_all JSON_parse JSON_stringify subs w)))"
      by (simp add: submit_all_snoc submit_one_success)
    also have "\<dots> = take 10 (entry_of JSON_parse s #
        take 10 (rev (map (entry_of JSON_parse) subs) @ history (ui w)))"
      by (simp only: IH)
    also have "\<dots> = take 10 (entry_of JSON_parse s #
        (rev (map (entry_of JSON_parse) subs) @ history (ui w)))"
      by (rule take_cons_take)
    finally show ?thesis by simp
  qed
qed

lemma submit_all_persisted:
  assumes "\<forall>sub \<in> set subs. succeeds JSON_parse sub" and "subs \<noteq> []"
  shows "localStorage (submit_all JSON_parse JSON_stringify subs w) ''aidoc_history'' =
           Some (JSON_stringify (history (ui (submit_all JSON_parse JSON_stringify subs w))))"
  using assms
proof (induction subs rule: rev_induct)
  case Nil
  then show ?case by simp
next
  case (snoc s subs)
  then have "succeeds JSON_parse s" by simp
  then show ?case
    by (simp add: submit_all_snoc submit_one_success)
qed


text \<open>
  Valid JSON that is not an array of entries is no syntax error: the effect ends, with
  that value in the \<^verbatim>\<open>history\<close> cell.
\<close>

lemma load_untyped_history:
  "load sample_parse (fresh_session [''aidoc_history'' \<mapsto> ''null'']) =
     Mounted_untyped JNull (fresh_session [''aidoc_history'' \<mapsto> ''null''])"
  by (simp add: load_def load_history_def load_disclaimer_def fresh_session_def
      sample_parse_def sample_result_text_def)

text \<open>A click on the submit button while the component is Loading changes nothing.\<close>

lemma click_submit_while_loading: "isLoading (ui w) \<Longrightarrow> click_submit w = (w, None)"
  by (simp add: click_submit_def submit_disabled_def)

text \<open>A click that starts a call finds the component not Loading and leaves it Loading.\<close>

lemma click_submit_starts:
  assumes "click_submit w = (w', Some p)"
  shows "\<not> isLoading (ui w) \<and> isLoading (ui w')"
  using assms
  by (auto simp: click_submit_def submit_disabled_def handleDiagnosis_begin_def
      split: if_splits)

lemma click_submit_ignored:
  assumes "click_submit w = (w', None)"
  shows "w' = w"
  using assms
  by (auto simp: click_submit_def handleDiagnosis_begin_def split: if_splits)

lemma resume_not_loading:
  "\<not> isLoading (ui (handleDiagnosis_resume P S p r u n w))"
  by (simp add: handleDiagnosis_resume_def Let_def split: sum.splits)

text \<open>Every event keeps the state and the suspended calls in agreement.\<close>

lemma step_one_in_flight:
  assumes "one_in_flight s"
  shows "one_in_flight (step P S ev s)"
proof (cases s)
  case (Pair w ps)
  show ?thesis
  proof (cases ev)
    case Click_submit
    show ?thesis
    proof (cases "click_submit w")
      case (Pair w' q)
      show ?thesis
      proof (cases q)
        case None
        with Pair \<open>s = (w, ps)\<close> Click_submit assms click_submit_ignored [of w w']
        show ?thesis by simp
      next
        case (Some p)
        with Pair click_submit_starts [of w w' p]
        have "\<not> isLoading (ui w)" and "isLoading (ui w')" by simp_all
        with Pair Some \<open>s = (w, ps)\<close> Click_submit assms show ?thesis
          by (simp add: one_in_flight_def)
      qed
    qed
  next
    case (Settle r u n)
    with Pair assms show ?thesis
      by (cases ps) (simp_all add: one_in_flight_def resume_not_loading)
  qed (use Pair assms in \<open>simp_all add: one_in_flight_def setSymptoms_def clearHistory_def
      selectFromHistory_def handleAcceptDisclaimer_def closeDisclaimer_def
      reopenDisclaimer_def\<close>)
qed

lemma run_events_one_in_flight:
  "one_in_flight s \<Longrightarrow> one_in_flight (run_events P S evs s)"
  unfolding run_events_def
  by (induction evs arbitrary: s) (simp_all add: step_one_in_flight)

lemma sample_parse_result: "sample_parse sample_result_text = Some sample_result"
  by (simp add: sample_parse_def)

lemma sample_result_text_not_empty: "sample_result_text \<noteq> []"
  by (simp add: sample_result_text_def)

lemma sample_receive_result:
  "getDiagnosis_receive sample_parse (Inr (Some sample_result_text)) = Inr sample_result"
  by (simp add: getDiagnosis_receive_def or_else_def sample_parse_result
      sample_result_text_not_empty)

lemma sample_submission_succeeds: "succeeds sample_parse (sample_submission n)"
  by (simp add: succeeds_def sample_submission_def sample_receive_result trim_def
      isWhiteSpace_def)

text \<open>
  Eleven submissions run on the code: the entry of the first one (timestamp 0) is gone,
  the other ten are there, newest first.
\<close>

lemma sample_run_timestamps:
  "map entry_timestamp (history (ui (submit_all sample_parse sample_stringify
      (map sample_submission [0..<11]) (fresh_session Map.empty)))) =
     [10, 9, 8, 7, 6, 5, 4, 3, 2, 1]"
  by code_simp

text \<open>
  A session run on the code: the second click, and the third after an edit, come while
  the first call is suspended; one call is suspended at the end and one request was sent.
\<close>

lemma sample_session_run:
  "map p_symptoms (snd (run_events sample_parse sample_stringify
      [Edit '' dry cough '', Click_submit, Click_submit, Edit ''fever'', Click_submit]
      (fresh_session Map.empty, []))) = ['' dry cough '']"
  "sent (fst (run_events sample_parse sample_stringify
      [Edit '' dry cough '', Click_submit, Click_submit, Edit ''fever'', Click_submit]
      (fresh_session Map.empty, []))) = ['' dry cough '']"
  by code_simp+

subsection \<open>The history cache\<close>

text \<open>
  Claim C1. For every run of successful submissions, as soon as one has succeeded (or
  from a history that was within the cap) the history in memory is the new entries,
  newest first, in front of the old ones, cut at ten, so it never holds more than ten;
  the value stored under \<^verbatim>\<open>aidoc_history\<close> is the serialisation of that same
  sequence; the entry of the latest submission is at index 0; and after ten or more
  successes the history is exactly the ten most recent entries, newest first.
\<close>

theorem history_capped_newest_first:
  assumes "\<forall>sub \<in> set subs. succeeds JSON_parse sub"
  shows "(subs \<noteq> [] \<or> length (history (ui w)) \<le> 10 \<longrightarrow>
            history (ui (submit_all JSON_parse JSON_stringify subs w)) =
              take 10 (rev (map (entry_of JSON_parse) subs) @ history (ui w)) \<and>
            length (history (ui (submit_all JSON_parse JSON_stringify subs w))) \<le> 10) \<and>
         (subs \<noteq> [] \<longrightarrow>
            localStorage (submit_all JSON_parse JSON_stringify subs w) ''aidoc_history'' =
              Some (JSON_stringify
                (history (ui (submit_all JSON_parse JSON_stringify subs w)))) \<and>
            history (ui (submit_all JSON_parse JSON_stringify subs w)) ! 0 =
              entry_of JSON_parse (last subs)) \<and>
         (10 \<le> length subs \<longrightarrow>
            history (ui (submit_all JSON_parse JSON_stringify subs w)) =
              take 10 (rev (map (entry_of JSON_parse) subs)))"
proof (intro conjI impI)
  assume a: "subs \<noteq> [] \<or> length (history (ui w)) \<le> 10"
  show "history (ui (submit_all JSON_parse JSON_stringify subs w)) =
              take 10 (rev (map (entry_of JSON_parse) subs) @ history (ui w))"
    using assms a by (rule submit_all_history)
  then show "length (history (ui (submit_all JSON_parse JSON_stringify subs w))) \<le> 10"
    by simp
next
  assume ne: "subs \<noteq> []"
  show "localStorage (submit_all JSON_parse JSON_stringify subs w) ''aidoc_history'' =
          Some (JSON_stringify (history (ui (submit_all JSON_parse JSON_stringify subs w))))"
    using assms ne by (rule submit_all_persisted)
  have "history (ui (submit_all JSON_parse JSON_stringify subs w)) =
          take 10 (rev (map (entry_of JSON_parse) subs) @ history (ui w))"
    using assms ne by (simp add: submit_all_history)
  with ne show "history (ui (submit_all JSON_parse JSON_stringify subs w)) ! 0 =
          entry_of JSON_parse (last subs)"
    by (cases subs rule: rev_cases) simp_all
next
  assume n: "10 \<le> length subs"
  then have ne: "subs \<noteq> []" by auto
  have "history (ui (submit_all JSON_parse JSON_stringify subs w)) =
          take 10 (rev (map (entry_of JSON_parse) subs) @ history (ui w))"
    using assms ne by (simp add: submit_all_history)
  with n show "history (ui (submit_all JSON_parse JSON_stringify subs w)) =
          take 10 (rev (map (entry_of JSON_parse) subs))"
    by simp
qed

theorem history_capped_newest_first_witness:
  "list_all (succeeds sample_parse) (map sample_submission [0..<11]) \<and>
   length (history (ui (submit_all sample_parse sample_stringify
      (map sample_submission [0..<11]) (fresh_session Map.empty)))) \<le> 10 \<and>
   localStorage (submit_all sample_parse sample_stringify
      (map sample_submission [0..<11]) (fresh_session Map.empty)) ''aidoc_history'' =
     Some (sample_stringify (history (ui (submit_all sample_parse sample_stringify
      (map sample_submission [0..<11]) (fresh_session Map.empty))))) \<and>
   history (ui (submit_all sample_parse sample_stringify
      (map sample_submission [0..<11]) (fresh_session Map.empty))) ! 0 =
     entry_of sample_parse (sample_submission 10) \<and>
   history (ui (submit_all sample_parse sample_stringify
      (map sample_submission [0..<11]) (fresh_session Map.empty))) =
     take 10 (rev (map (entry_of sample_parse) (map sample_submission [0..<11]))) \<and>
   map entry_timestamp (history (ui (submit_all sample_parse sample_stringify
      (map sample_submission [0..<11]) (fresh_session Map.empty)))) =
     [10, 9, 8, 7, 6, 5, 4, 3, 2, 1]"
proof -
  have h: "\<forall>sub \<in> set (map sample_submission [0..<11]). succeeds sample_parse sub"
    by (simp add: sample_submission_succeeds)
  have l: "last (map sample_submission [0..<11]) = sample_submission 10"
    by (simp add: last_map)
  have ne: "map sample_submission [0..<11] \<noteq> []"
    and len: "10 \<le> length (map sample_submission [0..<11])"
    by simp_all
  note t = history_capped_newest_first
      [OF h, where JSON_stringify = sample_stringify and w = "fresh_session Map.empty",
        unfolded l]
  from t h ne len sample_run_timestamps show ?thesis
    unfolding list_all_iff by blast
qed

text \<open>
  Claim C2, as the code has it. When the value stored under \<^verbatim>\<open>aidoc_history\<close> is absent
  or the empty string, the mount effect leaves the history empty and ends normally. When
  it is a non-empty text that \<^verbatim>\<open>JSON.parse\<close> rejects, the \<^verbatim>\<open>SyntaxError\<close> leaves the
  effect: nothing catches it.
\<close>

theorem load_history_absent_or_malformed:
  "(store ''aidoc_history'' = None \<or> store ''aidoc_history'' = Some [] \<longrightarrow>
      load JSON_parse (fresh_session store) =
        Mounted (load_disclaimer (fresh_session store)) \<and>
      history (ui (load_disclaimer (fresh_session store))) = []) \<and>
   (\<forall>t. store ''aidoc_history'' = Some t \<and> t \<noteq> [] \<and> JSON_parse t = None \<longrightarrow>
      load JSON_parse (fresh_session store) = Raised SyntaxError)"
  by (auto simp: load_def load_history_def load_disclaimer_def fresh_session_def
      initial_state_def)

theorem load_history_absent_or_malformed_witness:
  "load sample_parse (fresh_session Map.empty) =
     Mounted (load_disclaimer (fresh_session Map.empty)) \<and>
   history (ui (load_disclaimer (fresh_session Map.empty))) = [] \<and>
   load sample_parse (fresh_session [''aidoc_history'' \<mapsto> []]) =
     Mounted (load_disclaimer (fresh_session [''aidoc_history'' \<mapsto> []])) \<and>
   history (ui (load_disclaimer (fresh_session [''aidoc_history'' \<mapsto> []]))) = [] \<and>
   sample_parse ''[{'' = None \<and>
   load sample_parse (fresh_session [''aidoc_history'' \<mapsto> ''[{'']) = Raised SyntaxError"
  using load_history_absent_or_malformed [of Map.empty sample_parse]
    load_history_absent_or_malformed [of "[''aidoc_history'' \<mapsto> []]" sample_parse]
    load_history_absent_or_malformed [of "[''aidoc_history'' \<mapsto> ''[{'']" sample_parse]
  by (simp add: sample_parse_def sample_result_text_def)

text \<open>
  Claim C2 as the specification states it fails: a truncated text under
  \<^verbatim>\<open>aidoc_history\<close> makes the mount effect raise.
\<close>

theorem load_malformed_history_raises:
  "sample_parse ''[{'' = None \<and>
   load sample_parse (fresh_session [''aidoc_history'' \<mapsto> ''[{'']) = Raised SyntaxError"
  by (simp add: load_def load_history_def fresh_session_def sample_parse_def
      sample_result_text_def)

subsection \<open>The Session Controller\<close>

text \<open>
  Claim C3. When the symptom text is empty or holds white space only, its trimmed form is
  empty and a submission does nothing: the handler returns at its guard with the whole
  state as it was (\<^verbatim>\<open>isLoading\<close>, \<^verbatim>\<open>result\<close>, \<^verbatim>\<open>history\<close>, the storage, the alerts)
  and no request is sent; the submit button is disabled as well.
\<close>

theorem blank_submit_is_noop:
  assumes "\<forall>c \<in> set (symptoms (ui w)). isWhiteSpace c"
  shows "trim (symptoms (ui w)) = [] \<and>
         handleDiagnosis_begin w = (w, None) \<and>
         handleDiagnosis JSON_parse JSON_stringify response uuid now w = w \<and>
         click_submit w = (w, None)"
  using assms
  by (simp add: trim_empty_iff handleDiagnosis_def handleDiagnosis_begin_def click_submit_def)

theorem blank_submit_is_noop_witness:
  "list_all isWhiteSpace
     (symptoms (ui (setSymptoms [CHR 0x20, CHR 0x09, CHR 0x0A] (fresh_session Map.empty)))) \<and>
   handleDiagnosis_begin (setSymptoms [CHR 0x20, CHR 0x09, CHR 0x0A] (fresh_session Map.empty)) =
     (setSymptoms [CHR 0x20, CHR 0x09, CHR 0x0A] (fresh_session Map.empty), None) \<and>
   handleDiagnosis sample_parse sample_stringify (Inr (Some sample_result_text)) ''u'' 1
       (setSymptoms [CHR 0x20, CHR 0x09, CHR 0x0A] (fresh_session Map.empty)) =
     setSymptoms [CHR 0x20, CHR 0x09, CHR 0x0A] (fresh_session Map.empty)"
proof -
  have h: "\<forall>c \<in> set (symptoms (ui (setSymptoms [CHR 0x20, CHR 0x09, CHR 0x0A]
      (fresh_session Map.empty)))). isWhiteSpace c"
    by (simp add: setSymptoms_def isWhiteSpace_def)
  from blank_submit_is_noop [OF h] h show ?thesis
    unfolding list_all_iff by blast
qed

text \<open>
  Claim C4. When the text is accepted and the client call fails (the request is rejected,
  or its text does not parse), the handler is in the Loading state while the request is
  pending and then ends with the state it started from: \<^verbatim>\<open>result\<close>, \<^verbatim>\<open>history\<close> and
  the storage are untouched, \<^verbatim>\<open>isLoading\<close> is false again, and one \<^verbatim>\<open>alert\<close> box
  reports the failure. The only other trace is the one request that was sent.
\<close>

theorem failed_submit_restores_state:
  assumes "trim (symptoms (ui w)) \<noteq> []"
    and "getDiagnosis_receive JSON_parse response = Inl e"
  shows "isLoading (ui (fst (handleDiagnosis_begin w))) \<and>
         handleDiagnosis JSON_parse JSON_stringify response uuid now w =
           w\<lparr>ui := (ui w)\<lparr>isLoading := False\<rparr>,
             alerts := alerts w @ [''An error occurred during analysis. Please try again.''],
             sent := sent w @ [symptoms (ui w)]\<rparr> \<and>
         result (ui (handleDiagnosis JSON_parse JSON_stringify response uuid now w)) =
           result (ui w) \<and>
         history (ui (handleDiagnosis JSON_parse JSON_stringify response uuid now w)) =
           history (ui w) \<and>
         localStorage (handleDiagnosis JSON_parse JSON_stringify response uuid now w) =
           localStorage w \<and>
         \<not> isLoading (ui (handleDiagnosis JSON_parse JSON_stringify response uuid now w)) \<and>
         alerts (handleDiagnosis JSON_parse JSON_stringify response uuid now w) =
           alerts w @ [''An error occurred during analysis. Please try again.''] \<and>
         (\<not> isLoading (ui w) \<longrightarrow>
            ui (handleDiagnosis JSON_parse JSON_stringify response uuid now w) = ui w)"
  using assms
  by (simp add: handleDiagnosis_def handleDiagnosis_begin_def handleDiagnosis_resume_def
      getDiagnosis_send_def)

theorem failed_submit_restores_state_witness:
  "trim (symptoms (ui sample_world)) \<noteq> [] \<and>
   getDiagnosis_receive sample_parse (Inr (Some ''{'')) =
     Inl (Error ''Failed to analyze symptoms. Please try again.'') \<and>
   handleDiagnosis sample_parse sample_stringify (Inr (Some ''{'')) ''u'' 1 sample_world =
     sample_world
       \<lparr>alerts := [''An error occurred during analysis. Please try again.''],
        sent := ['' dry cough '']\<rparr>"
proof -
  have r: "getDiagnosis_receive sample_parse (Inr (Some ''{'')) =
     Inl (Error ''Failed to analyze symptoms. Please try again.'')"
    by (simp add: getDiagnosis_receive_def or_else_def sample_parse_def sample_result_text_def)
  have "handleDiagnosis sample_parse sample_stringify (Inr (Some ''{'')) ''u'' 1 sample_world =
     sample_world
       \<lparr>alerts := [''An error occurred during analysis. Please try again.''],
        sent := ['' dry cough '']\<rparr>"
    using failed_submit_restores_state
      [OF sample_world_accepted r, of sample_stringify "''u''" 1]
    by (simp add: sample_world_def setSymptoms_def fresh_session_def initial_state_def)
  with sample_world_accepted r show ?thesis by blast
qed

text \<open>
  Claim C7. For every accepted submission the trimmed text serves the emptiness test
  only: the request sent carries the text as typed, and on success the entry at index 0
  of the history is the new entry, whose \<^verbatim>\<open>symptoms\<close> field is the text as typed.
\<close>

theorem untrimmed_text_sent_and_stored:
  assumes "trim (symptoms (ui w)) \<noteq> []"
  shows "sent (fst (handleDiagnosis_begin w)) = sent w @ [symptoms (ui w)] \<and>
         (\<forall>data. getDiagnosis_receive JSON_parse response = Inr data \<longrightarrow>
            history (ui (handleDiagnosis JSON_parse JSON_stringify response uuid now w)) ! 0 =
              newEntry uuid now (symptoms (ui w)) data \<and>
            entry_symptoms
              (history (ui (handleDiagnosis JSON_parse JSON_stringify response uuid now w)) ! 0) =
              symptoms (ui w))"
  using assms
  by (simp add: handleDiagnosis_def handleDiagnosis_begin_def handleDiagnosis_resume_def
      getDiagnosis_send_def newEntry_def Let_def)

theorem untrimmed_text_sent_and_stored_witness:
  "trim (symptoms (ui sample_world)) \<noteq> [] \<and>
   trim (symptoms (ui sample_world)) \<noteq> symptoms (ui sample_world) \<and>
   getDiagnosis_receive sample_parse (Inr (Some sample_result_text)) = Inr sample_result \<and>
   sent (fst (handleDiagnosis_begin sample_world)) = ['' dry cough ''] \<and>
   entry_symptoms
     (history (ui (handleDiagnosis sample_parse sample_stringify (Inr (Some sample_result_text)) ''u'' 1
        sample_world)) ! 0) = '' dry cough ''"
proof -
  have r: "getDiagnosis_receive sample_parse (Inr (Some sample_result_text)) = Inr sample_result"
    by (rule sample_receive_result)
  have t: "trim (symptoms (ui sample_world)) \<noteq> symptoms (ui sample_world)"
    by (simp add: sample_world_def setSymptoms_def trim_def isWhiteSpace_def)
  have s: "symptoms (ui sample_world) = '' dry cough ''" "sent sample_world = []"
    by (simp_all add: sample_world_def setSymptoms_def fresh_session_def)
  from untrimmed_text_sent_and_stored [OF sample_world_accepted,
      of sample_parse "Inr (Some sample_result_text)" sample_stringify "''u''" 1] r
  have "sent (fst (handleDiagnosis_begin sample_world)) =
      sent sample_world @ [symptoms (ui sample_world)]"
    and "entry_symptoms
     (history (ui (handleDiagnosis sample_parse sample_stringify (Inr (Some sample_result_text)) ''u'' 1
        sample_world)) ! 0) = symptoms (ui sample_world)"
    by blast+
  with sample_world_accepted t r show ?thesis
    by (simp add: s)
qed

text \<open>
  Claim C9. In every session, whatever the user does and whenever requests settle, at
  most one call of the submit handler is suspended at its request, and the component is
  Loading exactly while one is. A click on the submit button while one is suspended is
  ignored: the state, the requests sent and the suspended call are as they were, so
  nothing is queued and no second request goes out.
\<close>

theorem at_most_one_submit_in_flight:
  assumes "\<not> isLoading (ui w)"
  shows "length (snd (run_events JSON_parse JSON_stringify evs (w, []))) \<le> 1 \<and>
         (isLoading (ui (fst (run_events JSON_parse JSON_stringify evs (w, [])))) \<longleftrightarrow>
            snd (run_events JSON_parse JSON_stringify evs (w, [])) \<noteq> []) \<and>
         (snd (run_events JSON_parse JSON_stringify evs (w, [])) \<noteq> [] \<longrightarrow>
            step JSON_parse JSON_stringify Click_submit
                (run_events JSON_parse JSON_stringify evs (w, [])) =
              run_events JSON_parse JSON_stringify evs (w, []))"
proof -
  obtain w' ps where r: "run_events JSON_parse JSON_stringify evs (w, []) = (w', ps)"
    by (cases "run_events JSON_parse JSON_stringify evs (w, [])")
  from assms have "one_in_flight (w, [])"
    by (simp add: one_in_flight_def)
  then have "one_in_flight (run_events JSON_parse JSON_stringify evs (w, []))"
    by (rule run_events_one_in_flight)
  with r have inv: "length ps \<le> 1" "isLoading (ui w') \<longleftrightarrow> ps \<noteq> []"
    by (simp_all add: one_in_flight_def)
  have "step JSON_parse JSON_stringify Click_submit (w', ps) = (w', ps)" if "ps \<noteq> []"
    using that inv click_submit_while_loading [of w'] by simp
  with r inv show ?thesis by simp
qed

theorem at_most_one_submit_in_flight_witness:
  "\<not> isLoading (ui (fresh_session Map.empty)) \<and>
   map p_symptoms (snd (run_events sample_parse sample_stringify
      [Edit '' dry cough '', Click_submit, Click_submit, Edit ''fever'', Click_submit]
      (fresh_session Map.empty, []))) = ['' dry cough ''] \<and>
   sent (fst (run_events sample_parse sample_stringify
      [Edit '' dry cough '', Click_submit, Click_submit, Edit ''fever'', Click_submit]
      (fresh_session Map.empty, []))) = ['' dry cough ''] \<and>
   isLoading (ui (fst (run_events sample_parse sample_stringify
      [Edit '' dry cough '', Click_submit, Click_submit, Edit ''fever'', Click_submit]
      (fresh_session Map.empty, [])))) \<and>
   step sample_parse sample_stringify Click_submit
     (run_events sample_parse sample_stringify
        [Edit '' dry cough '', Click_submit, Click_submit, Edit ''fever'', Click_submit]
        (fresh_session Map.empty, [])) =
     run_events sample_parse sample_stringify
       [Edit '' dry cough '', Click_submit, Click_submit, Edit ''fever'', Click_submit]
       (fresh_session Map.empty, [])"
proof -
  have h: "\<not> isLoading (ui (fresh_session Map.empty))"
    by (simp add: fresh_session_def initial_state_def)
  have ne: "snd (run_events sample_parse sample_stringify
      [Edit '' dry cough '', Click_submit, Click_submit, Edit ''fever'', Click_submit]
      (fresh_session Map.empty, [])) \<noteq> []"
    using sample_session_run by auto
  from at_most_one_submit_in_flight [OF h, of sample_parse sample_stringify
      "[Edit '' dry cough '', Click_submit, Click_submit, Edit ''fever'', Click_submit]"]
    h ne sample_session_run
  show ?thesis by blast
qed

subsection \<open>The Diagnosis Client\<close>

text \<open>
  Claim C5, as the code has it. \<^verbatim>\<open>getDiagnosis\<close> fails exactly when the request is
  rejected, and then with the error of the rejection itself, or when the response text,
  with \<^verbatim>\<open>{}\<close> in the place of an absent or empty one, does not parse, and then with
  the one generic error. Whether it fails or not it sends one request and no more.
\<close>

theorem getDiagnosis_fails_iff:
  "(fst (getDiagnosis JSON_parse ai s reqs) = Inl e \<longleftrightarrow>
      ai s = Inl e \<or>
      (\<exists>t. ai s = Inr t \<and> JSON_parse (or_else t ''{}'') = None \<and>
           e = Error ''Failed to analyze symptoms. Please try again.'')) \<and>
   snd (getDiagnosis JSON_parse ai s reqs) = reqs @ [s]"
  by (auto simp: getDiagnosis_def getDiagnosis_receive_def getDiagnosis_send_def
      split: sum.splits option.splits)

theorem getDiagnosis_fails_iff_witness:
  "fst (getDiagnosis sample_parse (\<lambda>s. Inr (Some ''{'')) ''cough'' []) =
     Inl (Error ''Failed to analyze symptoms. Please try again.'') \<and>
   fst (getDiagnosis sample_parse (\<lambda>s. Inl (ApiError ''503'')) ''cough'' []) =
     Inl (ApiError ''503'') \<and>
   snd (getDiagnosis sample_parse (\<lambda>s. Inr (Some ''{'')) ''cough'' []) = [''cough'']"
  using getDiagnosis_fails_iff
      [where JSON_parse = sample_parse and ai = "\<lambda>s. Inr (Some ''{'')" and s = "''cough''"
        and reqs = "[]" and e = "Error ''Failed to analyze symptoms. Please try again.''"]
    getDiagnosis_fails_iff
      [where JSON_parse = sample_parse and ai = "\<lambda>s. Inl (ApiError ''503'')"
        and s = "''cough''" and reqs = "[]" and e = "ApiError ''503''"]
  by (simp add: or_else_def sample_parse_def sample_result_text_def)

text \<open>
  Claim C5 as the specification states it fails twice: the empty text is not valid JSON
  and \<^verbatim>\<open>getDiagnosis\<close> returns a result for it, and a rejected request fails with its
  own error, not with the generic one.
\<close>

theorem getDiagnosis_empty_text_does_not_fail:
  "sample_parse [] = None \<and>
   fst (getDiagnosis sample_parse (\<lambda>s. Inr (Some [])) ''cough'' []) = Inr (JObject []) \<and>
   fst (getDiagnosis sample_parse (\<lambda>s. Inl (ApiError ''503'')) ''cough'' []) =
     Inl (ApiError ''503'')"
  by (simp add: getDiagnosis_def getDiagnosis_receive_def or_else_def sample_parse_def sample_result_text_def)

text \<open>
  Claim C6. The empty text is not JSON. For every response text that parses,
  \<^verbatim>\<open>getDiagnosis\<close> returns the parsed value itself, whatever that value is: nothing
  looks at its fields or at the values of \<^verbatim>\<open>severity\<close> and \<^verbatim>\<open>likelihood\<close>.
\<close>

theorem getDiagnosis_returns_parsed_value:
  assumes "JSON_parse [] = None" and "ai s = Inr (Some t)" and "JSON_parse t = Some v"
  shows "fst (getDiagnosis JSON_parse ai s reqs) = Inr v"
  using assms
  by (auto simp: getDiagnosis_def getDiagnosis_receive_def or_else_def)

theorem getDiagnosis_returns_parsed_value_witness:
  "sample_parse [] = None \<and> sample_parse ''null'' = Some JNull \<and>
   fst (getDiagnosis sample_parse (\<lambda>s. Inr (Some ''null'')) ''cough'' []) = Inr JNull"
proof -
  have a: "sample_parse [] = None" and b: "sample_parse ''null'' = Some JNull"
    by (simp_all add: sample_parse_def sample_result_text_def)
  from getDiagnosis_returns_parsed_value
      [where JSON_parse = sample_parse and ai = "\<lambda>s. Inr (Some ''null'')" and s = "''cough''"
        and t = "''null''" and v = JNull and reqs = "[]"] a b
  show ?thesis by simp
qed

text \<open>
  Claim C10. \<^verbatim>\<open>JSON.parse\<close> reads the text \<^verbatim>\<open>{}\<close> as the empty object. When the
  request succeeds and the response text is absent or empty, \<^verbatim>\<open>getDiagnosis\<close> does not
  fail: it returns the empty object, which has none of the fields the schema requires.
\<close>

theorem getDiagnosis_empty_text_gives_empty_object:
  assumes "JSON_parse ''{}'' = Some (JObject [])"
    and "ai s = Inr t" and "t = None \<or> t = Some []"
  shows "fst (getDiagnosis JSON_parse ai s reqs) = Inr (JObject []) \<and>
         (\<forall>name \<in> set required. member_of (JObject []) name = None)"
  using assms
  by (auto simp: getDiagnosis_def getDiagnosis_receive_def or_else_def)

theorem getDiagnosis_empty_text_gives_empty_object_witness:
  "sample_parse ''{}'' = Some (JObject []) \<and>
   fst (getDiagnosis sample_parse (\<lambda>s. Inr None) ''cough'' []) = Inr (JObject []) \<and>
   fst (getDiagnosis sample_parse (\<lambda>s. Inr (Some [])) ''cough'' []) = Inr (JObject []) \<and>
   list_all (\<lambda>name. member_of (JObject []) name = None) required"
proof -
  have a: "sample_parse ''{}'' = Some (JObject [])"
    by (simp add: sample_parse_def sample_result_text_def)
  from getDiagnosis_empty_text_gives_empty_object
      [where JSON_parse = sample_parse and ai = "\<lambda>s. Inr None" and s = "''cough''"
        and t = None and reqs = "[]"]
    getDiagnosis_empty_text_gives_empty_object
      [where JSON_parse = sample_parse and ai = "\<lambda>s. Inr (Some [])" and s = "''cough''"
        and t = "Some []" and reqs = "[]"] a
  show ?thesis by (simp add: list_all_iff)
qed

subsection \<open>The disclaimer gate\<close>




end
